theory Spec2Isabelle
  imports Main "HOL-Library.Word"
begin

unbundle bit_operations_syntax

section \<open>The archive header \<^verbatim>\<open>drv_arch_type.h\<close>\<close>

text \<open>
  The header declares the constants, enumerations and structures of the archive
  container format. The C types \<^verbatim>\<open>unsigned int\<close> and \<^verbatim>\<open>uint32\<close> are 32-bit
  words, \<^verbatim>\<open>uint8\<close> and \<^verbatim>\<open>unsigned char\<close> are 8-bit words, an enumeration constant
  is an \<^verbatim>\<open>int\<close>.
\<close>

type_synonym uint8 = "8 word"
type_synonym uint32 = "32 word"

subsection \<open>Macros\<close>

definition ZIP_ARCH_VER_1_0 :: uint32 where
  "ZIP_ARCH_VER_1_0 = 0x1CE70100"

definition ZIP_MODE_NONE :: uint8 where
  "ZIP_MODE_NONE = 0"

definition ZIP_MODE_ZLIB :: uint8 where
  "ZIP_MODE_ZLIB = 1"


definition ARCH_ID_MASK :: uint32 where
  "ARCH_ID_MASK = 0x00FFFFFF"

definition ZIP_MODE_MASK :: uint32 where
  "ZIP_MODE_MASK = 0xFF000000"

definition ZIP_MODE_REQ_SHIFT :: nat where
  "ZIP_MODE_REQ_SHIFT = 24"

text \<open>\<^verbatim>\<open>#define GET_ARCH_ID(x) ((x) & ARCH_ID_MASK)\<close>\<close>

definition GET_ARCH_ID :: "uint32 \<Rightarrow> uint32" where
  "GET_ARCH_ID x = x AND ARCH_ID_MASK"

text \<open>\<^verbatim>\<open>#define GET_ZIP_MODE(x) ((uint8)(((x) & ZIP_MODE_MASK) >> ZIP_MODE_REQ_SHIFT))\<close>:
  the shift is the logical one of an unsigned value, the cast keeps the low 8 bits.\<close>

definition GET_ZIP_MODE :: "uint32 \<Rightarrow> uint8" where
  "GET_ZIP_MODE x = ucast (drop_bit ZIP_MODE_REQ_SHIFT (x AND ZIP_MODE_MASK))"

definition ARCH_RFU_FIELD_SZ_XML :: nat where
  "ARCH_RFU_FIELD_SZ_XML = 0x120"

definition ARCH_RFU_FIELD_SZ :: nat where
  "ARCH_RFU_FIELD_SZ = ARCH_RFU_FIELD_SZ_XML"




definition ARCH_TAG_BT2_TRAILER :: uint32 where
  "ARCH_TAG_BT2_TRAILER = 0x1CEB72AB"

subsection \<open>Enumerations\<close>

datatype ArchId =
    ARCH_ID_APP
  | ARCH_ID_BT2
  | ARCH_ID_IFT
  | ARCH_ID_LDR
  | ARCH_ID_IMEI
  | ARCH_ID_CUSTCFG
  | ARCH_ID_ZEROCD
  | ARCH_ID_MASS
  | ARCH_ID_AUDIOCFG
  | ARCH_ID_COMPAT
  | ARCH_ID_PLATCFG
  | ARCH_ID_SECCFG
  | ARCH_ID_UNLOCK
  | ARCH_ID_CALIB
  | ARCH_ID_CALIB_PATCH
  | ARCH_ID_SSL_CERT
  | ARCH_ID_DEVICECFG
  | ARCH_ID_PRODUCTCFG
  | ARCH_ID_ROBCOUNTER
  | ARCH_ID_FLASHDISK
  | ARCH_ID_WEBUI_PACKAGE
  | ARCH_ID_BT3
  | ARCH_ID_ACT
  | ARCH_ID_ACT_DATA

text \<open>The value of each enumeration constant: \<^verbatim>\<open>ARCH_ID_APP = 0\<close>, every later
  constant one more than the one before it.\<close>

fun ArchId_value :: "ArchId \<Rightarrow> int" where
  "ArchId_value ARCH_ID_APP = 0"
| "ArchId_value ARCH_ID_BT2 = 1"
| "ArchId_value ARCH_ID_IFT = 2"
| "ArchId_value ARCH_ID_LDR = 3"
| "ArchId_value ARCH_ID_IMEI = 4"
| "ArchId_value ARCH_ID_CUSTCFG = 5"
| "ArchId_value ARCH_ID_ZEROCD = 6"
| "ArchId_value ARCH_ID_MASS = 7"
| "ArchId_value ARCH_ID_AUDIOCFG = 8"
| "ArchId_value ARCH_ID_COMPAT = 9"
| "ArchId_value ARCH_ID_PLATCFG = 10"
| "ArchId_value ARCH_ID_SECCFG = 11"
| "ArchId_value ARCH_ID_UNLOCK = 12"
| "ArchId_value ARCH_ID_CALIB = 13"
| "ArchId_value ARCH_ID_CALIB_PATCH = 14"
| "ArchId_value ARCH_ID_SSL_CERT = 15"
| "ArchId_value ARCH_ID_DEVICECFG = 16"
| "ArchId_value ARCH_ID_PRODUCTCFG = 17"
| "ArchId_value ARCH_ID_ROBCOUNTER = 18"
| "ArchId_value ARCH_ID_FLASHDISK = 19"
| "ArchId_value ARCH_ID_WEBUI_PACKAGE = 20"
| "ArchId_value ARCH_ID_BT3 = 21"
| "ArchId_value ARCH_ID_ACT = 22"
| "ArchId_value ARCH_ID_ACT_DATA = 23"

text \<open>The enumerators in the order of their declaration.\<close>

definition ArchId_enumerators :: "ArchId list" where
  "ArchId_enumerators =
    [ARCH_ID_APP, ARCH_ID_BT2, ARCH_ID_IFT, ARCH_ID_LDR, ARCH_ID_IMEI, ARCH_ID_CUSTCFG,
     ARCH_ID_ZEROCD, ARCH_ID_MASS, ARCH_ID_AUDIOCFG, ARCH_ID_COMPAT, ARCH_ID_PLATCFG,
     ARCH_ID_SECCFG, ARCH_ID_UNLOCK, ARCH_ID_CALIB, ARCH_ID_CALIB_PATCH, ARCH_ID_SSL_CERT,
     ARCH_ID_DEVICECFG, ARCH_ID_PRODUCTCFG, ARCH_ID_ROBCOUNTER, ARCH_ID_FLASHDISK,
     ARCH_ID_WEBUI_PACKAGE, ARCH_ID_BT3, ARCH_ID_ACT, ARCH_ID_ACT_DATA]"

datatype tSigKeySet =
    ARCH_ICE_ICE_KEY_SET
  | ARCH_ICE_OEM_KEY_SET
  | ARCH_OEM_FACT_KEY_SET
  | ARCH_NO_AUTH
  | ARCH_EXT_AUTH
  | ARCH_ICE_FACT_KEY_SET
  | ARCH_ICE_DBG_KEY_SET
  | ARCH_OEM_FIELD_KEY_SET
  | ARCH_ICE_CFG_KEY_SET
  | ARCH_ACT_ACT_KEY_SET
  | ARCH_SELF_ENCRYPTION

datatype tArchFileType = ARCH_TYPE_APPLI | ARCH_TYPE_DATA

datatype tArchPpidType = ARCH_NO_PPID | ARCH_PPID | ARCH_PFID | ARCH_PCID

subsection \<open>Archive properties\<close>

text \<open>\<^verbatim>\<open>struct tagArchFileProperty\<close>; its field \<^verbatim>\<open>type\<close> is \<open>file_type\<close> here.\<close>

record tArchFileProperty =
  acr :: string
  arch_id :: int
  key_set :: tSigKeySet
  ppid_check :: tArchPpidType
  write_file_during_auth :: bool
  file_type :: tArchFileType
  keep_wrapped_info :: bool
  is_patch :: bool
  ignore_magic :: bool

text \<open>The brace initialiser of the \<^verbatim>\<open>ARCH_PROP_*\<close> macros, fields in the order of the
  structure.\<close>

definition ARCH_PROP ::
  "string \<Rightarrow> ArchId \<Rightarrow> tSigKeySet \<Rightarrow> tArchPpidType \<Rightarrow> bool \<Rightarrow> tArchFileType \<Rightarrow> bool \<Rightarrow> bool \<Rightarrow> bool
    \<Rightarrow> tArchFileProperty" where
  "ARCH_PROP a i k p w t kw ip im =
    \<lparr>acr = a, arch_id = ArchId_value i, key_set = k, ppid_check = p,
     write_file_during_auth = w, file_type = t, keep_wrapped_info = kw, is_patch = ip,
     ignore_magic = im\<rparr>"

definition ARCH_PROP_APP :: tArchFileProperty where
  "ARCH_PROP_APP = ARCH_PROP ''MDM'' ARCH_ID_APP ARCH_ICE_OEM_KEY_SET ARCH_NO_PPID False ARCH_TYPE_APPLI True False False"

definition ARCH_PROP_BT2 :: tArchFileProperty where
  "ARCH_PROP_BT2 = ARCH_PROP ''BT2'' ARCH_ID_BT2 ARCH_ICE_ICE_KEY_SET ARCH_NO_PPID False ARCH_TYPE_APPLI True False False"

definition ARCH_PROP_IFT :: tArchFileProperty where
  "ARCH_PROP_IFT = ARCH_PROP ''IFT'' ARCH_ID_IFT ARCH_ICE_OEM_KEY_SET ARCH_NO_PPID False ARCH_TYPE_APPLI True False False"

definition ARCH_PROP_LDR :: tArchFileProperty where
  "ARCH_PROP_LDR = ARCH_PROP ''LDR'' ARCH_ID_LDR ARCH_ICE_OEM_KEY_SET ARCH_NO_PPID False ARCH_TYPE_APPLI True False False"

definition ARCH_PROP_BT3 :: tArchFileProperty where
  "ARCH_PROP_BT3 = ARCH_PROP ''BT3'' ARCH_ID_BT3 ARCH_ICE_OEM_KEY_SET ARCH_NO_PPID False ARCH_TYPE_APPLI True False False"

definition ARCH_PROP_ACT :: tArchFileProperty where
  "ARCH_PROP_ACT = ARCH_PROP ''ACT'' ARCH_ID_ACT ARCH_ICE_OEM_KEY_SET ARCH_NO_PPID False ARCH_TYPE_APPLI True False False"

definition ARCH_PROP_ACT_DATA :: tArchFileProperty where
  "ARCH_PROP_ACT_DATA = ARCH_PROP ''ACT_DATA'' ARCH_ID_ACT_DATA ARCH_OEM_FACT_KEY_SET ARCH_PPID False ARCH_TYPE_DATA True False False"

definition ARCH_PROP_IMEI_NO_AUTH :: tArchFileProperty where
  "ARCH_PROP_IMEI_NO_AUTH = ARCH_PROP ''IMEI'' ARCH_ID_IMEI ARCH_NO_AUTH ARCH_NO_PPID False ARCH_TYPE_DATA True False False"

definition ARCH_PROP_IMEI :: tArchFileProperty where
  "ARCH_PROP_IMEI = ARCH_PROP ''IMEI'' ARCH_ID_IMEI ARCH_OEM_FACT_KEY_SET ARCH_PPID False ARCH_TYPE_DATA True False False"

definition ARCH_PROP_CUSTCFG :: tArchFileProperty where
  "ARCH_PROP_CUSTCFG = ARCH_PROP '''' ARCH_ID_CUSTCFG ARCH_OEM_FACT_KEY_SET ARCH_PPID False ARCH_TYPE_DATA True False False"

definition ARCH_PROP_ZEROCD :: tArchFileProperty where
  "ARCH_PROP_ZEROCD = ARCH_PROP '''' ARCH_ID_ZEROCD ARCH_NO_AUTH ARCH_NO_PPID True ARCH_TYPE_DATA True False False"

definition ARCH_PROP_FLASHDISK :: tArchFileProperty where
  "ARCH_PROP_FLASHDISK = ARCH_PROP ''FLASHDISK'' ARCH_ID_FLASHDISK ARCH_NO_AUTH ARCH_NO_PPID True ARCH_TYPE_DATA False False False"

definition ARCH_PROP_MASS :: tArchFileProperty where
  "ARCH_PROP_MASS = ARCH_PROP '''' ARCH_ID_MASS ARCH_ICE_OEM_KEY_SET ARCH_NO_PPID False ARCH_TYPE_APPLI True False False"

definition ARCH_PROP_AUDIOCFG :: tArchFileProperty where
  "ARCH_PROP_AUDIOCFG = ARCH_PROP ''AUDIOCFG'' ARCH_ID_AUDIOCFG ARCH_NO_AUTH ARCH_NO_PPID False ARCH_TYPE_DATA True False False"

definition ARCH_PROP_COMPAT :: tArchFileProperty where
  "ARCH_PROP_COMPAT = ARCH_PROP ''COMPAT'' ARCH_ID_COMPAT ARCH_NO_AUTH ARCH_NO_PPID False ARCH_TYPE_DATA True False False"

definition ARCH_PROP_PLATCFG :: tArchFileProperty where
  "ARCH_PROP_PLATCFG = ARCH_PROP ''PLATCFG'' ARCH_ID_PLATCFG ARCH_NO_AUTH ARCH_NO_PPID False ARCH_TYPE_DATA False False False"

definition ARCH_PROP_SECCFG :: tArchFileProperty where
  "ARCH_PROP_SECCFG = ARCH_PROP ''SECCFG'' ARCH_ID_SECCFG ARCH_ICE_FACT_KEY_SET ARCH_PPID False ARCH_TYPE_DATA True False False"

definition ARCH_PROP_CALIB :: tArchFileProperty where
  "ARCH_PROP_CALIB = ARCH_PROP ''CALIB'' ARCH_ID_CALIB ARCH_OEM_FACT_KEY_SET ARCH_NO_PPID False ARCH_TYPE_DATA False False False"

definition ARCH_PROP_CALIB_PATCH :: tArchFileProperty where
  "ARCH_PROP_CALIB_PATCH = ARCH_PROP ''CALIB_PATCH'' ARCH_ID_CALIB_PATCH ARCH_OEM_FACT_KEY_SET ARCH_NO_PPID False ARCH_TYPE_DATA False True False"

definition ARCH_PROP_UNLOCK :: tArchFileProperty where
  "ARCH_PROP_UNLOCK = ARCH_PROP ''UNLOCK'' ARCH_ID_UNLOCK ARCH_ICE_DBG_KEY_SET ARCH_PCID False ARCH_TYPE_DATA True False False"

definition ARCH_PROP_SSL_CERT :: tArchFileProperty where
  "ARCH_PROP_SSL_CERT = ARCH_PROP ''SSL_CERT'' ARCH_ID_SSL_CERT ARCH_NO_AUTH ARCH_NO_PPID False ARCH_TYPE_DATA False True False"

definition ARCH_PROP_DEVICECFG :: tArchFileProperty where
  "ARCH_PROP_DEVICECFG = ARCH_PROP ''DEVICECFG'' ARCH_ID_DEVICECFG ARCH_OEM_FACT_KEY_SET ARCH_PPID False ARCH_TYPE_DATA True False False"

definition ARCH_PROP_PRODUCTCFG :: tArchFileProperty where
  "ARCH_PROP_PRODUCTCFG = ARCH_PROP ''PRODUCTCFG'' ARCH_ID_PRODUCTCFG ARCH_OEM_FIELD_KEY_SET ARCH_NO_PPID False ARCH_TYPE_DATA True False False"

definition ARCH_PROP_ROBCOUNTER :: tArchFileProperty where
  "ARCH_PROP_ROBCOUNTER = ARCH_PROP ''ROBCOUNTER'' ARCH_ID_ROBCOUNTER ARCH_ICE_CFG_KEY_SET ARCH_PPID False ARCH_TYPE_DATA True False False"

definition ARCH_PROP_WEBUI_PACKAGE :: tArchFileProperty where
  "ARCH_PROP_WEBUI_PACKAGE = ARCH_PROP '''' ARCH_ID_WEBUI_PACKAGE ARCH_NO_AUTH ARCH_NO_PPID False ARCH_TYPE_DATA False True False"

text \<open>The archive type table for PC applications, entries in the order of the macro.\<close>

definition DRV_ARCH_TYPE_TABLE_ON_PC :: "tArchFileProperty list" where
  "DRV_ARCH_TYPE_TABLE_ON_PC =
    [ARCH_PROP_APP, ARCH_PROP_BT2, ARCH_PROP_IFT, ARCH_PROP_LDR, ARCH_PROP_IMEI,
     ARCH_PROP_CUSTCFG, ARCH_PROP_ZEROCD, ARCH_PROP_MASS, ARCH_PROP_AUDIOCFG,
     ARCH_PROP_COMPAT, ARCH_PROP_PLATCFG, ARCH_PROP_SECCFG, ARCH_PROP_UNLOCK,
     ARCH_PROP_CALIB, ARCH_PROP_CALIB_PATCH, ARCH_PROP_SSL_CERT, ARCH_PROP_DEVICECFG,
     ARCH_PROP_PRODUCTCFG, ARCH_PROP_ROBCOUNTER, ARCH_PROP_FLASHDISK,
     ARCH_PROP_WEBUI_PACKAGE, ARCH_PROP_BT3, ARCH_PROP_ACT, ARCH_PROP_ACT_DATA]"

subsection \<open>Tag packing\<close>

text \<open>An enumeration constant written into the 32-bit tag.\<close>

definition ArchId_word :: "ArchId \<Rightarrow> uint32" where
  "ArchId_word a = word_of_int (ArchId_value a)"

text \<open>Modelled from the spec: the header has the two extraction macros and no packing
  macro; the packing is the formula of the interface section,
  \<^verbatim>\<open>(zipMode << 24) | (archiveId & 0x00FFFFFF)\<close>, on 32-bit unsigned values.\<close>

definition encode_tag :: "uint32 \<Rightarrow> uint8 \<Rightarrow> uint32" where
  "encode_tag archiveId zipMode =
     push_bit ZIP_MODE_REQ_SHIFT (ucast zipMode) OR (archiveId AND 0x00FFFFFF)"

subsection \<open>Structures\<close>

text \<open>\<^verbatim>\<open>tAppliFileHeader\<close>, the TLV encoded file header. Its field \<^verbatim>\<open>length\<close> is
  \<open>length_fld\<close> here; \<^verbatim>\<open>rfu\<close> is an array of \<^verbatim>\<open>ARCH_RFU_FIELD_SZ\<close> bytes, a list whose
  length a well-formed header keeps at that constant.\<close>

record tAppliFileHeader =
  tag :: uint32
  length_fld :: uint32
  file_size :: uint32
  entry_address :: uint32
  file_id :: uint32
  sign_type :: uint32
  checksum :: uint32
  key_index :: uint32
  rfu :: "uint8 list"

text \<open>\<^verbatim>\<open>sizeof(tAppliFileHeader)\<close>: eight 32-bit fields and the RFU block.\<close>

definition FILE_HEADER_SIZE :: nat where
  "FILE_HEADER_SIZE = 8 * 4 + ARCH_RFU_FIELD_SZ"

text \<open>\<^verbatim>\<open>tZipAppliFileHeader\<close>, the ZIP file header of three 32-bit fields.\<close>

record tZipAppliFileHeader =
  zip_arch_ver :: uint32
  zip_header_length :: uint32
  zip_file_size :: uint32

definition ZIP_HEADER_SIZE :: nat where
  "ZIP_HEADER_SIZE = 3 * 4"

text \<open>\<^verbatim>\<open>ArchBt2ExtTrailer\<close>, the secondary boot extended trailer. Its field \<^verbatim>\<open>size\<close> is
  \<open>size_fld\<close> here; \<^verbatim>\<open>data\<close>, a pointer to the buffer of data, is the list of the bytes it
  points to.\<close>

record ArchBt2ExtTrailer =
  magic :: uint32
  size_fld :: uint32
  data :: "uint8 list"

text \<open>Modelled from the spec: the fixed part of the trailer on the wire, \<^verbatim>\<open>magic\<close> (u32) and
  \<^verbatim>\<open>size\<close> (u32), which precede the data.\<close>

definition BT2_TRAILER_HEADER_SIZE :: nat where
  "BT2_TRAILER_HEADER_SIZE = 2 * 4"

section \<open>The archive codec\<close>

text \<open>
  The header declares data only. The operations on it (the table lookup, the tag
  decomposition with its mode check, the three decoders and the header encoder) are
  modelled from the specification of the codec. What the specification leaves open is a
  parameter of the model: the byte order of the 32-bit fields, the checksum scheme, and
  the order of the tests of a decoder where the specification does not decide it.
\<close>

subsection \<open>TagTable\<close>

text \<open>Modelled from the spec: \<^verbatim>\<open>TagTable.lookup\<close>, the mapping from an archive identifier to
  its property record, which the header does not implement. It searches the table of the
  header for the entry whose \<^verbatim>\<open>arch_id\<close> is the identifier; \<open>lookup_id\<close> takes the number
  read from a tag, \<open>lookup\<close> an enumerator.\<close>

definition lookup_id :: "int \<Rightarrow> tArchFileProperty option" where
  "lookup_id n = find (\<lambda>p. arch_id p = n) DRV_ARCH_TYPE_TABLE_ON_PC"

text \<open>Modelled from the spec: \<^verbatim>\<open>TagTable.lookup\<close> on an enumerated archive id.\<close>

definition lookup :: "ArchId \<Rightarrow> tArchFileProperty option" where
  "lookup a = lookup_id (ArchId_value a)"

text \<open>Modelled from the spec: the error kinds of the codec, which the header does not
  declare.\<close>

datatype DecodeError =
    TooShort
  | BadMagic
  | LengthMismatch
  | ChecksumMismatch
  | UnsupportedVersion
  | TruncatedData
  | UnknownArchiveId

text \<open>Modelled from the spec: \<^verbatim>\<open>TagTable.decompose\<close>, which the header does not implement.
  It splits a packed 32-bit value into the low 24 bits and the high 8 bits with the two
  macros of the header; a zip mode that is not one of none = 0 and zlib = 1 is reported to
  the caller as the unsupported-mode error \<open>UnsupportedVersion\<close>.\<close>

definition decompose :: "uint32 \<Rightarrow> DecodeError + (uint32 \<times> uint8)" where
  "decompose rawTag =
     (let archiveId = GET_ARCH_ID rawTag; zipMode = GET_ZIP_MODE rawTag
      in if zipMode = ZIP_MODE_NONE \<or> zipMode = ZIP_MODE_ZLIB then Inr (archiveId, zipMode)
         else Inl UnsupportedVersion)"

text \<open>Modelled from the spec: "a known ArchiveId via TagTable", the condition on the tag in
  \<^verbatim>\<open>HeaderCodec.decode\<close>: the table has an entry for the archive identifier, the low 24
  bits of the tag. The zip mode has no part in it.\<close>

definition known_archive_id :: "uint32 \<Rightarrow> bool" where
  "known_archive_id t = (lookup_id (uint (GET_ARCH_ID t)) \<noteq> None)"

text \<open>Modelled from the spec: the first error among tests in an order. The specification
  names the errors of a decoder and their conditions and gives no order in which the
  conditions are tested; the order is a parameter: \<open>ord\<close> lists the tests made first, the
  tests it does not list follow.\<close>

definition first_failure ::
  "(DecodeError \<Rightarrow> bool) \<Rightarrow> DecodeError list \<Rightarrow> DecodeError list \<Rightarrow> DecodeError option" where
  "first_failure fails ord tests = find fails (ord @ tests)"

subsection \<open>Bytes\<close>

text \<open>Modelled from the spec: the byte order of a 32-bit field, which the specification
  leaves as a configuration option.\<close>

datatype byte_order = LittleEndian | BigEndian

text \<open>Modelled from the spec: four bytes of a buffer, least significant first, as one
  32-bit field.\<close>

definition word_of_bytes :: "uint8 \<Rightarrow> uint8 \<Rightarrow> uint8 \<Rightarrow> uint8 \<Rightarrow> uint32" where
  "word_of_bytes b0 b1 b2 b3 =
     ucast b0 OR push_bit 8 (ucast b1) OR push_bit 16 (ucast b2) OR push_bit 24 (ucast b3)"

text \<open>Modelled from the spec: writing a 32-bit field in the byte order.\<close>

fun put_u32 :: "byte_order \<Rightarrow> uint32 \<Rightarrow> uint8 list" where
  "put_u32 LittleEndian w =
     [ucast w, ucast (drop_bit 8 w), ucast (drop_bit 16 w), ucast (drop_bit 24 w)]"
| "put_u32 BigEndian w =
     [ucast (drop_bit 24 w), ucast (drop_bit 16 w), ucast (drop_bit 8 w), ucast w]"

text \<open>Modelled from the spec: reading a 32-bit field at an offset of a buffer. A decoder
  reads only after it has checked the length of the buffer.\<close>

fun get_u32 :: "byte_order \<Rightarrow> uint8 list \<Rightarrow> nat \<Rightarrow> uint32" where
  "get_u32 LittleEndian bs off =
     word_of_bytes (bs ! off) (bs ! (off + 1)) (bs ! (off + 2)) (bs ! (off + 3))"
| "get_u32 BigEndian bs off =
     word_of_bytes (bs ! (off + 3)) (bs ! (off + 2)) (bs ! (off + 1)) (bs ! off)"

subsection \<open>HeaderCodec\<close>

text \<open>Modelled from the spec: the byte layout of the file header, the fields in the order
  of the structure, each 32-bit field in the byte order, then the RFU block.\<close>

definition serialize :: "byte_order \<Rightarrow> tAppliFileHeader \<Rightarrow> uint8 list" where
  "serialize bo h =
     put_u32 bo (tag h) @ put_u32 bo (length_fld h) @ put_u32 bo (file_size h) @
     put_u32 bo (entry_address h) @ put_u32 bo (file_id h) @ put_u32 bo (sign_type h) @
     put_u32 bo (checksum h) @ put_u32 bo (key_index h) @ rfu h"

text \<open>Modelled from the spec: reading the fixed-size structure from the front of a
  buffer, the inverse of the layout.\<close>

definition parse :: "byte_order \<Rightarrow> uint8 list \<Rightarrow> tAppliFileHeader" where
  "parse bo buffer =
     \<lparr>tag = get_u32 bo buffer 0, length_fld = get_u32 bo buffer 4,
      file_size = get_u32 bo buffer 8, entry_address = get_u32 bo buffer 12,
      file_id = get_u32 bo buffer 16, sign_type = get_u32 bo buffer 20,
      checksum = get_u32 bo buffer 24, key_index = get_u32 bo buffer 28,
      rfu = take ARCH_RFU_FIELD_SZ (drop 32 buffer)\<rparr>"

text \<open>Modelled from the spec: the checksum, "an unsigned 32-bit arithmetic/XOR
  accumulation" over "all header bytes with checksum field treated as zero". The
  specification allows either accumulation and fixes neither; both are modelled, each
  byte widened to 32 bits and added (wrapping at 32 bits) or xor-ed into the accumulator.\<close>

datatype checksum_scheme = Arithmetic | Xor

text \<open>Modelled from the spec: one step of the accumulation.\<close>

fun combine :: "checksum_scheme \<Rightarrow> uint32 \<Rightarrow> uint32 \<Rightarrow> uint32" where
  "combine Arithmetic a b = a + b"
| "combine Xor a b = a XOR b"

text \<open>Modelled from the spec: the accumulation over a byte string.\<close>

fun accumulate :: "checksum_scheme \<Rightarrow> uint8 list \<Rightarrow> uint32" where
  "accumulate cs [] = 0"
| "accumulate cs (b # bs) = combine cs (ucast b) (accumulate cs bs)"

text \<open>Modelled from the spec: the checksum of a header, the accumulation over its
  bytes with the checksum field slot zeroed.\<close>

definition header_checksum :: "byte_order \<Rightarrow> checksum_scheme \<Rightarrow> tAppliFileHeader \<Rightarrow> uint32" where
  "header_checksum bo cs h = accumulate cs (serialize bo (h\<lparr>checksum := 0\<rparr>))"

text \<open>Modelled from the spec: \<^verbatim>\<open>HeaderCodec.encode\<close>, which "serializes in the same field
  order; recomputes and fills checksum".\<close>

definition encode :: "byte_order \<Rightarrow> checksum_scheme \<Rightarrow> tAppliFileHeader \<Rightarrow> uint8 list" where
  "encode bo cs h = serialize bo (h\<lparr>checksum := header_checksum bo cs h\<rparr>)"

text \<open>Modelled from the spec: the tests of \<^verbatim>\<open>HeaderCodec.decode\<close> on the structure read,
  each under the error it raises: \<open>BadMagic\<close> if the tag does not decompose to a known
  ArchiveId via TagTable, \<open>UnsupportedVersion\<close> if \<^verbatim>\<open>TagTable.decompose\<close> reports the mode of
  the tag as unsupported (the error is preserved), \<open>LengthMismatch\<close> if the length field is
  not the size of the structure.\<close>

fun header_test_fails :: "tAppliFileHeader \<Rightarrow> DecodeError \<Rightarrow> bool" where
  "header_test_fails h BadMagic = (\<not> known_archive_id (tag h))"
| "header_test_fails h UnsupportedVersion = (decompose (tag h) = Inl UnsupportedVersion)"
| "header_test_fails h LengthMismatch = (length_fld h \<noteq> of_nat FILE_HEADER_SIZE)"
| "header_test_fails h e = False"

text \<open>Modelled from the spec: the tests of tag, mode and length, in the order they take
  where \<open>ord\<close> names none.\<close>

definition header_tests :: "DecodeError list" where
  "header_tests = [BadMagic, UnsupportedVersion, LengthMismatch]"

text \<open>Modelled from the spec: \<^verbatim>\<open>HeaderCodec.decode\<close>, which reads the fixed-size structure
  from the front of the buffer. It fails with \<open>TooShort\<close> if the buffer is smaller than the
  structure, before anything is read. It fails with \<open>ChecksumMismatch\<close> if the recomputed
  checksum is not the stored one; the checksum is compared before the other tests, as the
  checksum-sensitivity property of the specification requires (any single flipped bit
  outside the checksum field, also one of the tag or of the length, is answered with
  \<open>ChecksumMismatch\<close>). The tests of tag, mode and length follow in the order \<open>ord\<close>.\<close>

definition decode ::
  "DecodeError list \<Rightarrow> byte_order \<Rightarrow> checksum_scheme \<Rightarrow> uint8 list \<Rightarrow>
     DecodeError + tAppliFileHeader" where
  "decode ord bo cs buffer =
     (if length buffer < FILE_HEADER_SIZE then Inl TooShort
      else let h = parse bo buffer in
        if header_checksum bo cs h \<noteq> checksum h then Inl ChecksumMismatch
        else case first_failure (header_test_fails h) ord header_tests of
               Some e \<Rightarrow> Inl e
             | None \<Rightarrow> Inr h)"

text \<open>Modelled from the spec: "flipping any single bit" of a byte string; bit \<open>p\<close> is bit
  \<open>p mod 8\<close> of byte \<open>p div 8\<close>.\<close>

definition flip_buffer_bit :: "nat \<Rightarrow> uint8 list \<Rightarrow> uint8 list" where
  "flip_buffer_bit p bs = bs[p div 8 := flip_bit (p mod 8) (bs ! (p div 8))]"


text \<open>Modelled from the spec: the header of the round-trip scenario (\<^verbatim>\<open>file_id=0x1001\<close>,
  \<^verbatim>\<open>entry_address=0x08000000\<close>, \<^verbatim>\<open>sign_type=0\<close>), for the application archive without
  compression, with the length of the structure and the arithmetic checksum of its bytes.\<close>

definition scenario_header :: tAppliFileHeader where
  "scenario_header =
     \<lparr>tag = encode_tag (ArchId_word ARCH_ID_APP) ZIP_MODE_NONE, length_fld = 320,
      file_size = 0x2000, entry_address = 0x08000000, file_id = 0x1001, sign_type = 0,
      checksum = 0x7A, key_index = 0, rfu = replicate ARCH_RFU_FIELD_SZ 0\<rparr>"

subsection \<open>ZipHeaderCodec\<close>

text \<open>Modelled from the spec: \<^verbatim>\<open>ZipHeaderCodec.decode\<close>, which fails with \<open>TooShort\<close> if
  there are not enough bytes and with \<open>UnsupportedVersion\<close> if \<^verbatim>\<open>zip_arch_ver\<close> is not the
  version constant.\<close>

definition zip_decode :: "byte_order \<Rightarrow> uint8 list \<Rightarrow> DecodeError + tZipAppliFileHeader" where
  "zip_decode bo buffer =
     (if length buffer < ZIP_HEADER_SIZE then Inl TooShort
      else let z = \<lparr>zip_arch_ver = get_u32 bo buffer 0, zip_header_length = get_u32 bo buffer 4,
                     zip_file_size = get_u32 bo buffer 8\<rparr>
        in if zip_arch_ver z \<noteq> ZIP_ARCH_VER_1_0 then Inl UnsupportedVersion else Inr z)"

subsection \<open>BootTrailerCodec\<close>

text \<open>Modelled from the spec: the tests of \<^verbatim>\<open>BootTrailerCodec.decode\<close> on the magic and
  size read and the number of bytes that remain after them: the magic must equal the
  trailer tag, or the trailer is treated as absent, which is reported as \<open>BadMagic\<close>; the
  data is truncated if fewer than \<open>size\<close> bytes remain.\<close>

fun trailer_test_fails :: "uint32 \<Rightarrow> uint32 \<Rightarrow> nat \<Rightarrow> DecodeError \<Rightarrow> bool" where
  "trailer_test_fails m sz remaining BadMagic = (m \<noteq> ARCH_TAG_BT2_TRAILER)"
| "trailer_test_fails m sz remaining TruncatedData = (remaining < unat sz)"
| "trailer_test_fails m sz remaining e = False"

text \<open>Modelled from the spec: the two tests of the trailer, in the order they take where
  \<open>ord\<close> names none.\<close>

definition trailer_tests :: "DecodeError list" where
  "trailer_tests = [BadMagic, TruncatedData]"

text \<open>Modelled from the spec: \<^verbatim>\<open>BootTrailerCodec.decode\<close>, which "reads magic+size, then
  fails with TruncatedData if fewer than size bytes remain, else captures a borrowed view
  of exactly size bytes as the data block"; on a buffer shorter than the two fields it
  fails with \<open>TooShort\<close>, as every decoder does. The two tests are made in the order \<open>ord\<close>.\<close>

definition trailer_decode ::
  "DecodeError list \<Rightarrow> byte_order \<Rightarrow> uint8 list \<Rightarrow> DecodeError + ArchBt2ExtTrailer" where
  "trailer_decode ord bo buffer =
     (if length buffer < BT2_TRAILER_HEADER_SIZE then Inl TooShort
      else let m = get_u32 bo buffer 0; sz = get_u32 bo buffer 4;
               remaining = drop BT2_TRAILER_HEADER_SIZE buffer
        in case first_failure (trailer_test_fails m sz (length remaining)) ord trailer_tests of
             Some e \<Rightarrow> Inl e
           | None \<Rightarrow> Inr \<lparr>magic = m, size_fld = sz, data = take (unat sz) remaining\<rparr>)"

lemmas ARCH_PROP_defs =
  ARCH_PROP_APP_def ARCH_PROP_BT2_def ARCH_PROP_IFT_def ARCH_PROP_LDR_def ARCH_PROP_IMEI_def
  ARCH_PROP_CUSTCFG_def ARCH_PROP_ZEROCD_def ARCH_PROP_MASS_def ARCH_PROP_AUDIOCFG_def
  ARCH_PROP_COMPAT_def ARCH_PROP_PLATCFG_def ARCH_PROP_SECCFG_def ARCH_PROP_UNLOCK_def
  ARCH_PROP_CALIB_def ARCH_PROP_CALIB_PATCH_def ARCH_PROP_SSL_CERT_def ARCH_PROP_DEVICECFG_def
  ARCH_PROP_PRODUCTCFG_def ARCH_PROP_ROBCOUNTER_def ARCH_PROP_FLASHDISK_def
  ARCH_PROP_WEBUI_PACKAGE_def ARCH_PROP_BT3_def ARCH_PROP_ACT_def ARCH_PROP_ACT_DATA_def

section \<open>The tag fields\<close>

lemma low24_mask: "(0x00FFFFFF :: uint32) = mask 24"
  by (simp add: mask_eq_exp_minus_1)

lemma high8_mask: "(0xFF000000 :: uint32) = push_bit 24 (mask 8)"
  by (simp add: mask_eq_exp_minus_1)

lemma GET_ARCH_ID_encode_tag: "GET_ARCH_ID (encode_tag a z) = a AND 0x00FFFFFF"
  unfolding GET_ARCH_ID_def encode_tag_def ARCH_ID_MASK_def ZIP_MODE_REQ_SHIFT_def low24_mask
  by (rule bit_word_eqI) (auto simp: bit_simps)

lemma GET_ZIP_MODE_encode_tag: "GET_ZIP_MODE (encode_tag a z) = z"
  unfolding GET_ZIP_MODE_def encode_tag_def ZIP_MODE_MASK_def ZIP_MODE_REQ_SHIFT_def
    low24_mask high8_mask
  by (rule bit_word_eqI) (auto simp: bit_simps)

lemma ArchId_word_low24: "ArchId_word a AND 0x00FFFFFF = ArchId_word a"
  by (cases a) (simp_all add: ArchId_word_def)

lemma uint_ArchId_word: "uint (ArchId_word a) = ArchId_value a"
  by (cases a) (simp_all add: ArchId_word_def)

text \<open>C2: for every enumerated archive id and every zip mode in {0, 1}, packing the tag as
  \<^verbatim>\<open>(zipMode << 24) | (archiveId & 0x00FFFFFF)\<close> and extracting the two fields with
  \<^verbatim>\<open>GET_ARCH_ID\<close> and \<^verbatim>\<open>GET_ZIP_MODE\<close> gives back the archive id and the zip mode.\<close>

theorem tag_pack_decompose:
  "zipMode = ZIP_MODE_NONE \<or> zipMode = ZIP_MODE_ZLIB \<Longrightarrow>
     GET_ARCH_ID (encode_tag (ArchId_word a) zipMode) = ArchId_word a \<and>
     uint (GET_ARCH_ID (encode_tag (ArchId_word a) zipMode)) = ArchId_value a \<and>
     GET_ZIP_MODE (encode_tag (ArchId_word a) zipMode) = zipMode"
  by (simp add: GET_ARCH_ID_encode_tag GET_ZIP_MODE_encode_tag ArchId_word_low24
      uint_ArchId_word)

theorem tag_pack_decompose_witness:
  "encode_tag (ArchId_word ARCH_ID_IMEI) ZIP_MODE_ZLIB = 0x01000004 \<and>
   GET_ARCH_ID 0x01000004 = 4 \<and> GET_ZIP_MODE 0x01000004 = 1"
  using tag_pack_decompose [of ZIP_MODE_ZLIB ARCH_ID_IMEI]
  by (simp add: ArchId_word_def encode_tag_def ZIP_MODE_REQ_SHIFT_def ZIP_MODE_ZLIB_def)

text \<open>C9: for every 32-bit value, shifting the extracted zip mode back by 24 and or-ing the
  extracted archive id gives the value again; the two masks are disjoint and cover the 32
  bits; the archive id is below 2^24 and the zip mode below 2^8. The zip mode is widened
  to 32 bits before the shift, which wraps at 32 bits.\<close>

theorem tag_fields_recompose:
  "push_bit ZIP_MODE_REQ_SHIFT (ucast (GET_ZIP_MODE x)) OR GET_ARCH_ID x = x \<and>
   ARCH_ID_MASK AND ZIP_MODE_MASK = 0 \<and>
   ARCH_ID_MASK OR ZIP_MODE_MASK = 0xFFFFFFFF \<and>
   unat (GET_ARCH_ID x) < 2 ^ 24 \<and>
   unat (GET_ZIP_MODE x) < 2 ^ 8"
proof -
  have "push_bit ZIP_MODE_REQ_SHIFT (ucast (GET_ZIP_MODE x)) OR GET_ARCH_ID x = x"
    unfolding GET_ZIP_MODE_def GET_ARCH_ID_def ZIP_MODE_MASK_def ARCH_ID_MASK_def
      ZIP_MODE_REQ_SHIFT_def low24_mask high8_mask
    by (rule bit_word_eqI) (auto simp: bit_simps)
  moreover have "unat (GET_ARCH_ID x) < 2 ^ 24"
  proof -
    have "GET_ARCH_ID x \<le> 0x00FFFFFF"
      unfolding GET_ARCH_ID_def ARCH_ID_MASK_def by (rule word_and_le1)
    then show ?thesis by (simp add: word_le_nat_alt)
  qed
  moreover have "unat (GET_ZIP_MODE x) < 2 ^ 8"
    using unsigned_less [of "GET_ZIP_MODE x", where ?'a = nat] by simp
  ultimately show ?thesis
    by (simp add: ARCH_ID_MASK_def ZIP_MODE_MASK_def)
qed

section \<open>The property table\<close>

lemma table_arch_ids:
  "map arch_id DRV_ARCH_TYPE_TABLE_ON_PC = map ArchId_value ArchId_enumerators"
  by (simp add: DRV_ARCH_TYPE_TABLE_ON_PC_def ArchId_enumerators_def ARCH_PROP_defs
      ARCH_PROP_def)

lemma enumerator_values: "map ArchId_value ArchId_enumerators = map int [0..<24]"
  by (simp add: ArchId_enumerators_def upt_rec)

lemma length_table: "length DRV_ARCH_TYPE_TABLE_ON_PC = 24"
  by (simp add: DRV_ARCH_TYPE_TABLE_ON_PC_def)

lemma enumerators_all: "set ArchId_enumerators = UNIV"
proof -
  have "a \<in> set ArchId_enumerators" for a
    by (cases a) (simp_all add: ArchId_enumerators_def)
  then show ?thesis by auto
qed

lemma table_entry_id:
  assumes "i < 24"
  shows "arch_id (DRV_ARCH_TYPE_TABLE_ON_PC ! i) = int i"
proof -
  have "arch_id (DRV_ARCH_TYPE_TABLE_ON_PC ! i) = map arch_id DRV_ARCH_TYPE_TABLE_ON_PC ! i"
    using assms by (simp add: length_table)
  also have "\<dots> = map int [0..<24] ! i"
    by (simp only: table_arch_ids enumerator_values)
  also have "\<dots> = int i"
    using assms by simp
  finally show ?thesis .
qed

lemma enumerator_entry_value:
  assumes "i < 24"
  shows "ArchId_value (ArchId_enumerators ! i) = int i"
proof -
  have "length ArchId_enumerators = 24"
    by (simp add: ArchId_enumerators_def)
  then have "ArchId_value (ArchId_enumerators ! i) = map ArchId_value ArchId_enumerators ! i"
    using assms by simp
  also have "\<dots> = int i"
    using assms by (simp only: enumerator_values) simp
  finally show ?thesis .
qed

text \<open>C10: the table has 24 entries, the entry at index \<open>i\<close> has \<open>arch_id = i\<close>, which is
  the value of the \<open>i\<close>-th enumerator, for every \<open>i\<close> from 0 to 23; the slot of
  \<^verbatim>\<open>ARCH_ID_IMEI\<close> holds \<^verbatim>\<open>ARCH_PROP_IMEI\<close> (OEM factory key set, PPID), which is not
  \<^verbatim>\<open>ARCH_PROP_IMEI_NO_AUTH\<close>.\<close>

theorem table_in_enum_order:
  "length DRV_ARCH_TYPE_TABLE_ON_PC = 24 \<and>
   (\<forall>i<24. arch_id (DRV_ARCH_TYPE_TABLE_ON_PC ! i) = int i \<and>
            ArchId_value (ArchId_enumerators ! i) = int i) \<and>
   DRV_ARCH_TYPE_TABLE_ON_PC ! nat (ArchId_value ARCH_ID_IMEI) = ARCH_PROP_IMEI \<and>
   key_set ARCH_PROP_IMEI = ARCH_OEM_FACT_KEY_SET \<and>
   key_set ARCH_PROP_IMEI_NO_AUTH = ARCH_NO_AUTH \<and>
   ARCH_PROP_IMEI \<noteq> ARCH_PROP_IMEI_NO_AUTH"
proof (intro conjI allI impI)
  show "length DRV_ARCH_TYPE_TABLE_ON_PC = 24"
    by (rule length_table)
  show "arch_id (DRV_ARCH_TYPE_TABLE_ON_PC ! i) = int i" if "i < 24" for i
    using that by (rule table_entry_id)
  show "ArchId_value (ArchId_enumerators ! i) = int i" if "i < 24" for i
    using that by (rule enumerator_entry_value)
  show "DRV_ARCH_TYPE_TABLE_ON_PC ! nat (ArchId_value ARCH_ID_IMEI) = ARCH_PROP_IMEI"
    by (simp add: DRV_ARCH_TYPE_TABLE_ON_PC_def)
  show "key_set ARCH_PROP_IMEI = ARCH_OEM_FACT_KEY_SET"
    by (simp add: ARCH_PROP_IMEI_def ARCH_PROP_def)
  show "key_set ARCH_PROP_IMEI_NO_AUTH = ARCH_NO_AUTH"
    by (simp add: ARCH_PROP_IMEI_NO_AUTH_def ARCH_PROP_def)
  show "ARCH_PROP_IMEI \<noteq> ARCH_PROP_IMEI_NO_AUTH"
    by (simp add: ARCH_PROP_IMEI_def ARCH_PROP_IMEI_NO_AUTH_def ARCH_PROP_def)
qed

theorem table_in_enum_order_witness:
  "arch_id (DRV_ARCH_TYPE_TABLE_ON_PC ! 19) = 19 \<and>
   acr (DRV_ARCH_TYPE_TABLE_ON_PC ! 19) = ''FLASHDISK'' \<and>
   ArchId_enumerators ! 19 = ARCH_ID_FLASHDISK"
  using table_in_enum_order
  by (simp add: DRV_ARCH_TYPE_TABLE_ON_PC_def ARCH_PROP_FLASHDISK_def ARCH_PROP_def
      ArchId_enumerators_def)

lemma table_id_set: "arch_id ` set DRV_ARCH_TYPE_TABLE_ON_PC = {0..<24}"
proof -
  have "arch_id ` set DRV_ARCH_TYPE_TABLE_ON_PC = set (map arch_id DRV_ARCH_TYPE_TABLE_ON_PC)"
    by simp
  also have "\<dots> = int ` {0..<24}"
    by (simp only: table_arch_ids enumerator_values set_map set_upt)
  also have "\<dots> = {0..<24}"
    by (simp add: image_int_atLeastLessThan)
  finally show ?thesis .
qed

text \<open>C3: the lookup succeeds for every enumerated archive id, and the table has exactly
  one entry with that id, the one the lookup returns; no two entries of the table have the
  same pair of acronym and id; the enumeration has 24 values.\<close>

theorem lookup_total:
  "(\<exists>p. lookup a = Some p \<and> arch_id p = ArchId_value a \<and>
        filter (\<lambda>q. arch_id q = ArchId_value a) DRV_ARCH_TYPE_TABLE_ON_PC = [p]) \<and>
   distinct (map (\<lambda>p. (acr p, arch_id p)) DRV_ARCH_TYPE_TABLE_ON_PC) \<and>
   length ArchId_enumerators = 24 \<and> distinct ArchId_enumerators \<and>
   set ArchId_enumerators = UNIV"
proof (intro conjI)
  show "\<exists>p. lookup a = Some p \<and> arch_id p = ArchId_value a \<and>
        filter (\<lambda>q. arch_id q = ArchId_value a) DRV_ARCH_TYPE_TABLE_ON_PC = [p]"
    by (cases a;
        simp add: lookup_def lookup_id_def DRV_ARCH_TYPE_TABLE_ON_PC_def ARCH_PROP_defs
          ARCH_PROP_def)
  show "distinct (map (\<lambda>p. (acr p, arch_id p)) DRV_ARCH_TYPE_TABLE_ON_PC)"
    by (simp add: DRV_ARCH_TYPE_TABLE_ON_PC_def ARCH_PROP_defs ARCH_PROP_def)
  show "length ArchId_enumerators = 24" and "distinct ArchId_enumerators"
    by (simp_all add: ArchId_enumerators_def)
  show "set ArchId_enumerators = UNIV"
    by (rule enumerators_all)
qed

section \<open>Known archive ids\<close>

lemma known_archive_id_range: "known_archive_id t \<longleftrightarrow> uint (GET_ARCH_ID t) < 24"
proof -
  have "known_archive_id t \<longleftrightarrow>
      uint (GET_ARCH_ID t) \<in> arch_id ` set DRV_ARCH_TYPE_TABLE_ON_PC"
    by (auto simp: known_archive_id_def lookup_id_def find_None_iff intro: rev_image_eqI)
  then show ?thesis
    by (simp add: table_id_set)
qed






section \<open>The first failing test\<close>

lemma first_failure_None:
  "first_failure fails ord tests = None \<longleftrightarrow> (\<forall>e \<in> set ord \<union> set tests. \<not> fails e)"
  by (auto simp: first_failure_def find_None_iff)

lemma first_failure_Some_fails: "first_failure fails ord tests = Some e \<Longrightarrow> fails e"
  by (auto simp: first_failure_def find_Some_iff)


lemma first_failure_only:
  assumes "fails e" and "e \<in> set tests" and "\<And>e'. fails e' \<Longrightarrow> e' = e"
  shows "first_failure fails ord tests = Some e"
proof (cases "first_failure fails ord tests")
  case None
  then show ?thesis
    using assms(1,2) by (simp add: first_failure_None)
next
  case (Some e')
  then show ?thesis
    using assms(3) [OF first_failure_Some_fails [OF Some]] by simp
qed





lemma header_test_fails_checksum [simp]:
  "header_test_fails (h\<lparr>checksum := c\<rparr>) = header_test_fails h"
proof
  show "header_test_fails (h\<lparr>checksum := c\<rparr>) e = header_test_fails h e" for e
    by (cases e) simp_all
qed

section \<open>Bytes and words\<close>

lemma sizes:
  "FILE_HEADER_SIZE = 320" "ARCH_RFU_FIELD_SZ = 288" "ZIP_HEADER_SIZE = 12"
  "BT2_TRAILER_HEADER_SIZE = 8"
  by (simp_all add: FILE_HEADER_SIZE_def ARCH_RFU_FIELD_SZ_def ARCH_RFU_FIELD_SZ_XML_def
      ZIP_HEADER_SIZE_def BT2_TRAILER_HEADER_SIZE_def)

lemma word_of_bytes_split:
  "word_of_bytes (ucast w) (ucast (drop_bit 8 w)) (ucast (drop_bit 16 w))
     (ucast (drop_bit 24 w)) = w"
  unfolding word_of_bytes_def
proof (rule bit_word_eqI)
  fix n assume n: "n < LENGTH(32)"
  consider "n < 8" | "8 \<le> n" "n < 16" | "16 \<le> n" "n < 24" | "24 \<le> n" "n < 32"
    using n by fastforce
  then show "bit (ucast (ucast w :: uint8) OR push_bit 8 (ucast (ucast (drop_bit 8 w) :: uint8)) OR
       push_bit 16 (ucast (ucast (drop_bit 16 w) :: uint8)) OR
       push_bit 24 (ucast (ucast (drop_bit 24 w) :: uint8)) :: uint32) n = bit w n"
    by cases (auto simp: bit_simps)
qed

lemma byte0_word_of_bytes: "ucast (word_of_bytes a b c d) = a"
  unfolding word_of_bytes_def
  by (rule bit_word_eqI) (auto simp: bit_simps dest: bit_imp_le_length)

lemma byte1_word_of_bytes: "ucast (drop_bit 8 (word_of_bytes a b c d)) = b"
  unfolding word_of_bytes_def
  by (rule bit_word_eqI) (auto simp: bit_simps dest: bit_imp_le_length)

lemma byte2_word_of_bytes: "ucast (drop_bit 16 (word_of_bytes a b c d)) = c"
  unfolding word_of_bytes_def
  by (rule bit_word_eqI) (auto simp: bit_simps dest: bit_imp_le_length)

lemma byte3_word_of_bytes: "ucast (drop_bit 24 (word_of_bytes a b c d)) = d"
  unfolding word_of_bytes_def
  by (rule bit_word_eqI) (auto simp: bit_simps dest: bit_imp_le_length)

lemma length_put_u32 [simp]: "length (put_u32 bo w) = 4"
  by (cases bo) simp_all


lemma get_u32_append_add: "get_u32 bo (xs @ ys) (length xs + d) = get_u32 bo ys d"
  by (cases bo) (simp_all add: nth_append)

lemma get_u32_append_skip:
  assumes "length xs \<le> off"
  shows "get_u32 bo (xs @ ys) off = get_u32 bo ys (off - length xs)"
  using get_u32_append_add [of bo xs ys "off - length xs"] assms by simp

lemma get_u32_put_head: "get_u32 bo (put_u32 bo w @ post) 0 = w"
  by (cases bo) (simp_all add: word_of_bytes_split)

lemma take4_drop:
  assumes "off + 4 \<le> length bs"
  shows "take 4 (drop off bs) = [bs ! off, bs ! (off + 1), bs ! (off + 2), bs ! (off + 3)]"
proof -
  have "drop off bs =
      bs ! off # bs ! (off + 1) # bs ! (off + 2) # bs ! (off + 3) # drop (off + 4) bs"
    using assms by (simp add: Cons_nth_drop_Suc numeral_eq_Suc)
  then show ?thesis by simp
qed

lemma put_get_u32:
  "off + 4 \<le> length bs \<Longrightarrow> put_u32 bo (get_u32 bo bs off) = take 4 (drop off bs)"
  by (cases bo)
    (simp_all add: take4_drop byte0_word_of_bytes byte1_word_of_bytes byte2_word_of_bytes
      byte3_word_of_bytes)


lemma get_u32_update_inside:
  assumes "off \<le> i" "i < off + 4" "off + 4 \<le> length bs" "v \<noteq> bs ! i"
  shows "get_u32 bo (bs[i := v]) off \<noteq> get_u32 bo bs off"
proof
  assume "get_u32 bo (bs[i := v]) off = get_u32 bo bs off"
  then have "put_u32 bo (get_u32 bo (bs[i := v]) off) = put_u32 bo (get_u32 bo bs off)"
    by simp
  then have "take 4 (drop off (bs[i := v])) = take 4 (drop off bs)"
    using assms(3) by (simp add: put_get_u32)
  then have "take 4 (drop off (bs[i := v])) ! (i - off) = take 4 (drop off bs) ! (i - off)"
    by simp
  then show False
    using assms by simp
qed

section \<open>The header layout\<close>

lemma length_serialize: "length (serialize bo h) = 32 + length (rfu h)"
  by (simp add: serialize_def)

lemma length_encode: "length (encode bo cs h) = 32 + length (rfu h)"
  by (simp add: encode_def length_serialize)






lemma header_checksum_update [simp]:
  "header_checksum bo cs (h\<lparr>checksum := c\<rparr>) = header_checksum bo cs h"
  by (simp add: header_checksum_def)






subsection \<open>The scenario header\<close>




lemma accumulate_replicate_zero [simp]: "accumulate cs (replicate n 0) = accumulate cs []"
  by (induction n) (cases cs; simp)+


lemma scenario_rfu: "length (rfu scenario_header) = ARCH_RFU_FIELD_SZ"
  by (simp add: scenario_header_def)



section \<open>Round trip of the file header\<close>






section \<open>Checksum sensitivity\<close>




lemma ucast_flip_bit_neq:
  fixes b :: uint8
  assumes "k < 8"
  shows "(ucast (flip_bit k b) :: uint32) \<noteq> ucast b"
proof
  assume "(ucast (flip_bit k b) :: uint32) = ucast b"
  then have "bit (ucast (flip_bit k b) :: uint32) k = bit (ucast b :: uint32) k"
    by simp
  then show False
    using assms by (simp add: bit_simps)
qed

lemma flip_bit_neq: "k < 8 \<Longrightarrow> flip_bit k b \<noteq> b" for b :: uint8
  using ucast_flip_bit_neq [of k b] by auto









section \<open>The tag and the checksum\<close>

lemma scenario_tag_flip:
  "get_u32 LittleEndian (flip_buffer_bit 5 (encode LittleEndian cs scenario_header)) 0 = 32"
  "get_u32 LittleEndian (flip_buffer_bit 25 (encode LittleEndian cs scenario_header)) 0 =
     0x02000000"
  by (simp_all add: flip_buffer_bit_def encode_def serialize_def scenario_header_def
      encode_tag_def ArchId_word_def ZIP_MODE_NONE_def ZIP_MODE_REQ_SHIFT_def
      word_of_bytes_def flip_bit_eq_xor)

lemma length_flip_scenario:
  "FILE_HEADER_SIZE \<le> length (flip_buffer_bit p (encode bo cs scenario_header))"
  using scenario_rfu by (simp add: flip_buffer_bit_def length_encode sizes)

lemma unknown_32: "\<not> known_archive_id 32"
  by (simp add: known_archive_id_range GET_ARCH_ID_def ARCH_ID_MASK_def)

lemma zip_mode_2: "GET_ZIP_MODE 0x02000000 = 2"
  by (simp add: GET_ZIP_MODE_def ZIP_MODE_MASK_def ZIP_MODE_REQ_SHIFT_def)

text \<open>Whatever the decoder: one that answers every single flipped bit outside the checksum
  field with \<open>ChecksumMismatch\<close> answers so also a buffer whose tag has no known archive
  id, and a buffer whose tag has zip mode 2. Bit 5 of the encoded scenario header turns
  the tag into 32, bit 25 into \<^verbatim>\<open>0x02000000\<close>.\<close>

lemma sensitive_decoder_answers:
  fixes d :: "uint8 list \<Rightarrow> DecodeError + tAppliFileHeader"
  assumes "\<And>h p. length (rfu h) = ARCH_RFU_FIELD_SZ \<Longrightarrow> p < 8 * FILE_HEADER_SIZE \<Longrightarrow>
      p div 8 < 24 \<or> 28 \<le> p div 8 \<Longrightarrow>
      d (flip_buffer_bit p (encode LittleEndian cs h)) = Inl ChecksumMismatch"
  shows "\<exists>buffer. FILE_HEADER_SIZE \<le> length buffer \<and>
           \<not> known_archive_id (get_u32 LittleEndian buffer 0) \<and> d buffer \<noteq> Inl BadMagic"
    and "\<exists>buffer. FILE_HEADER_SIZE \<le> length buffer \<and>
           GET_ZIP_MODE (get_u32 LittleEndian buffer 0) = 2 \<and>
           d buffer \<noteq> Inl UnsupportedVersion"
proof -
  let ?a = "flip_buffer_bit 5 (encode LittleEndian cs scenario_header)"
  let ?b = "flip_buffer_bit 25 (encode LittleEndian cs scenario_header)"
  have "d ?a = Inl ChecksumMismatch" "d ?b = Inl ChecksumMismatch"
    by (rule assms [OF scenario_rfu]; simp add: sizes)+
  then have "FILE_HEADER_SIZE \<le> length ?a \<and>
      \<not> known_archive_id (get_u32 LittleEndian ?a 0) \<and> d ?a \<noteq> Inl BadMagic"
    and "FILE_HEADER_SIZE \<le> length ?b \<and> GET_ZIP_MODE (get_u32 LittleEndian ?b 0) = 2 \<and>
      d ?b \<noteq> Inl UnsupportedVersion"
    by (simp_all only: scenario_tag_flip length_flip_scenario unknown_32 zip_mode_2) simp_all
  then show "\<exists>buffer. FILE_HEADER_SIZE \<le> length buffer \<and>
           \<not> known_archive_id (get_u32 LittleEndian buffer 0) \<and> d buffer \<noteq> Inl BadMagic"
    and "\<exists>buffer. FILE_HEADER_SIZE \<le> length buffer \<and>
           GET_ZIP_MODE (get_u32 LittleEndian buffer 0) = 2 \<and>
           d buffer \<noteq> Inl UnsupportedVersion"
    by blast+
qed

section \<open>Errors of the decoders\<close>









section \<open>The boot trailer\<close>

lemma trailer_tests_pass:
  "first_failure (trailer_test_fails m sz n) ord trailer_tests = None \<longleftrightarrow>
     m = ARCH_TAG_BT2_TRAILER \<and> \<not> n < unat sz"
proof
  assume "first_failure (trailer_test_fails m sz n) ord trailer_tests = None"
  then have "\<not> trailer_test_fails m sz n BadMagic" "\<not> trailer_test_fails m sz n TruncatedData"
    by (simp_all add: first_failure_None trailer_tests_def)
  then show "m = ARCH_TAG_BT2_TRAILER \<and> \<not> n < unat sz"
    by simp
next
  assume ok: "m = ARCH_TAG_BT2_TRAILER \<and> \<not> n < unat sz"
  have "\<not> trailer_test_fails m sz n e" for e
    using ok by (cases e) auto
  then show "first_failure (trailer_test_fails m sz n) ord trailer_tests = None"
    by (simp add: first_failure_None)
qed

lemma trailer_only_truncated:
  assumes "n < unat sz"
  shows "first_failure (trailer_test_fails ARCH_TAG_BT2_TRAILER sz n) ord trailer_tests =
      Some TruncatedData"
proof (rule first_failure_only)
  show "trailer_test_fails ARCH_TAG_BT2_TRAILER sz n TruncatedData"
    using assms by simp
  show "TruncatedData \<in> set trailer_tests"
    by (simp add: trailer_tests_def)
  show "e' = TruncatedData" if "trailer_test_fails ARCH_TAG_BT2_TRAILER sz n e'" for e'
    using that by (cases e') auto
qed

lemma trailer_only_magic:
  assumes "m \<noteq> ARCH_TAG_BT2_TRAILER" and "\<not> n < unat sz"
  shows "first_failure (trailer_test_fails m sz n) ord trailer_tests = Some BadMagic"
proof (rule first_failure_only)
  show "trailer_test_fails m sz n BadMagic"
    using assms by simp
  show "BadMagic \<in> set trailer_tests"
    by (simp add: trailer_tests_def)
  show "e' = BadMagic" if "trailer_test_fails m sz n e'" for e'
    using that assms(2) by (cases e') auto
qed

lemma trailer_decode_tagged:
  assumes "BT2_TRAILER_HEADER_SIZE \<le> length buffer"
    and "get_u32 bo buffer 0 = ARCH_TAG_BT2_TRAILER"
  shows "trailer_decode ord bo buffer =
     (if length buffer - BT2_TRAILER_HEADER_SIZE < unat (get_u32 bo buffer 4)
      then Inl TruncatedData
      else Inr \<lparr>magic = ARCH_TAG_BT2_TRAILER, size_fld = get_u32 bo buffer 4,
                data = take (unat (get_u32 bo buffer 4))
                  (drop BT2_TRAILER_HEADER_SIZE buffer)\<rparr>)"
proof (cases "length buffer - BT2_TRAILER_HEADER_SIZE < unat (get_u32 bo buffer 4)")
  case True
  then show ?thesis
    using assms
    by (simp add: trailer_decode_def Let_def trailer_only_truncated)
next
  case False
  then have "first_failure
      (trailer_test_fails ARCH_TAG_BT2_TRAILER (get_u32 bo buffer 4)
        (length buffer - BT2_TRAILER_HEADER_SIZE)) ord trailer_tests = None"
    by (simp add: trailer_tests_pass)
  then show ?thesis
    using assms False by (simp add: trailer_decode_def Let_def)
qed

text \<open>C6, as the codec has it: on every buffer that holds the two 32-bit fields and whose
  magic is the BT2 trailer tag, the trailer decoder fails with \<open>TruncatedData\<close> exactly when
  fewer than \<open>size\<close> bytes remain after the fields, and otherwise returns the trailer with
  the magic and size read and a data block of exactly \<open>size\<close> bytes; the BT2 trailer magic,
  size 16 and 16 bytes of payload decode to that trailer, and the same with size 17 fails
  with \<open>TruncatedData\<close>. This holds for either order of the two tests and both byte
  orders.\<close>

theorem trailer_truncated:
  assumes "BT2_TRAILER_HEADER_SIZE \<le> length buffer"
    and "get_u32 bo buffer 0 = ARCH_TAG_BT2_TRAILER"
    and "length payload = 16"
  shows "(trailer_decode ord bo buffer = Inl TruncatedData) =
           (length buffer - BT2_TRAILER_HEADER_SIZE < unat (get_u32 bo buffer 4)) \<and>
         (\<not> length buffer - BT2_TRAILER_HEADER_SIZE < unat (get_u32 bo buffer 4) \<longrightarrow>
            trailer_decode ord bo buffer =
              Inr \<lparr>magic = get_u32 bo buffer 0, size_fld = get_u32 bo buffer 4,
                   data = take (unat (get_u32 bo buffer 4))
                     (drop BT2_TRAILER_HEADER_SIZE buffer)\<rparr> \<and>
            length (take (unat (get_u32 bo buffer 4)) (drop BT2_TRAILER_HEADER_SIZE buffer)) =
              unat (get_u32 bo buffer 4)) \<and>
         trailer_decode ord bo (put_u32 bo ARCH_TAG_BT2_TRAILER @ put_u32 bo 16 @ payload) =
           Inr \<lparr>magic = ARCH_TAG_BT2_TRAILER, size_fld = 16, data = payload\<rparr> \<and>
         trailer_decode ord bo (put_u32 bo ARCH_TAG_BT2_TRAILER @ put_u32 bo 17 @ payload) =
           Inl TruncatedData"
proof -
  have s: "get_u32 bo (put_u32 bo ARCH_TAG_BT2_TRAILER @ put_u32 bo n @ payload) 0 =
        ARCH_TAG_BT2_TRAILER"
      "get_u32 bo (put_u32 bo ARCH_TAG_BT2_TRAILER @ put_u32 bo n @ payload) 4 = n"
      "BT2_TRAILER_HEADER_SIZE \<le>
        length (put_u32 bo ARCH_TAG_BT2_TRAILER @ put_u32 bo n @ payload)" for n
    by (simp_all add: get_u32_put_head get_u32_append_skip sizes)
  have "trailer_decode ord bo (put_u32 bo ARCH_TAG_BT2_TRAILER @ put_u32 bo 16 @ payload) =
           Inr \<lparr>magic = ARCH_TAG_BT2_TRAILER, size_fld = 16, data = payload\<rparr>"
    using assms(3) by (simp add: trailer_decode_tagged [OF s(3) s(1)] s(2) sizes)
  moreover have
    "trailer_decode ord bo (put_u32 bo ARCH_TAG_BT2_TRAILER @ put_u32 bo 17 @ payload) =
           Inl TruncatedData"
    using assms(3) by (simp add: trailer_decode_tagged [OF s(3) s(1)] s(2) sizes)
  ultimately show ?thesis
    using assms(1,2) by (simp add: trailer_decode_tagged [OF assms(1,2)] sizes)
qed

theorem trailer_truncated_witness:
  "trailer_decode [] LittleEndian
     (put_u32 LittleEndian ARCH_TAG_BT2_TRAILER @ put_u32 LittleEndian 16 @ replicate 16 0xAB) =
     Inr \<lparr>magic = 0x1CEB72AB, size_fld = 16, data = replicate 16 0xAB\<rparr> \<and>
   trailer_decode [] LittleEndian
     (put_u32 LittleEndian ARCH_TAG_BT2_TRAILER @ put_u32 LittleEndian 17 @ replicate 16 0xAB) =
     Inl TruncatedData"
proof -
  let ?b = "put_u32 LittleEndian ARCH_TAG_BT2_TRAILER @ put_u32 LittleEndian 16 @
    replicate 16 (0xAB :: uint8)"
  have l: "BT2_TRAILER_HEADER_SIZE \<le> length ?b"
    by (simp add: sizes)
  have m: "get_u32 LittleEndian ?b 0 = ARCH_TAG_BT2_TRAILER"
    by (rule get_u32_put_head)
  have n: "length (replicate 16 (0xAB :: uint8)) = 16"
    by simp
  show ?thesis
    using trailer_truncated [OF l m n, of "[]"]
    by (simp only: ARCH_TAG_BT2_TRAILER_def)
qed

text \<open>The claim as stated fails on a buffer of eight zero bytes, of which no byte is
  missing (size 0): its magic is not the trailer tag, the trailer is treated as absent and
  no trailer is returned; and on the empty buffer, which has no magic and size to read and
  is answered with \<open>TooShort\<close>.\<close>

theorem trailer_counterexample:
  "\<not> length (replicate 8 (0 :: uint8)) - BT2_TRAILER_HEADER_SIZE <
      unat (get_u32 LittleEndian (replicate 8 0) 4) \<and>
   trailer_decode [] LittleEndian (replicate 8 0) = Inl BadMagic \<and>
   trailer_decode [] LittleEndian [] = Inl TooShort"
proof -
  have z: "get_u32 LittleEndian (replicate 8 0) 0 = 0" "get_u32 LittleEndian (replicate 8 0) 4 = 0"
    by (simp_all add: word_of_bytes_def)
  have "first_failure (trailer_test_fails 0 0 0) [] trailer_tests = Some BadMagic"
    by (rule trailer_only_magic) (simp_all add: ARCH_TAG_BT2_TRAILER_def)
  then have "trailer_decode [] LittleEndian (replicate 8 0) = Inl BadMagic"
    by (simp add: trailer_decode_def Let_def sizes word_of_bytes_def)
  moreover have "trailer_decode [] LittleEndian [] = Inl TooShort"
    by (simp add: trailer_decode_def sizes)
  moreover have "\<not> length (replicate 8 (0 :: uint8)) - BT2_TRAILER_HEADER_SIZE <
      unat (get_u32 LittleEndian (replicate 8 0) 4)"
    by (simp only: z) simp
  ultimately show ?thesis
    by (simp only: simp_thms)
qed

section \<open>Short buffers\<close>

text \<open>C7: each decoder fails with \<open>TooShort\<close> on a buffer strictly shorter than the fixed
  size of its structure; the file header is eight 32-bit fields and an RFU block of 0x120
  bytes, 320 bytes in all, and the zip header is three 32-bit fields, 12 bytes.\<close>

theorem too_short:
  "FILE_HEADER_SIZE = 8 * 4 + 0x120 \<and> FILE_HEADER_SIZE = 320 \<and> ZIP_HEADER_SIZE = 12 \<and>
   (length buffer < FILE_HEADER_SIZE \<longrightarrow> decode ord bo cs buffer = Inl TooShort) \<and>
   (length buffer < ZIP_HEADER_SIZE \<longrightarrow> zip_decode bo buffer = Inl TooShort) \<and>
   (length buffer < BT2_TRAILER_HEADER_SIZE \<longrightarrow> trailer_decode ord bo buffer = Inl TooShort)"
  by (simp add: decode_def zip_decode_def trailer_decode_def sizes)

theorem too_short_witness:
  "decode [] BigEndian Xor (replicate 319 0) = Inl TooShort \<and>
   zip_decode BigEndian (put_u32 BigEndian ZIP_ARCH_VER_1_0 @ replicate 7 0) = Inl TooShort \<and>
   trailer_decode [] BigEndian (put_u32 BigEndian ARCH_TAG_BT2_TRAILER @ [0, 0, 0]) =
     Inl TooShort"
proof -
  have "decode [] BigEndian Xor (replicate 319 0) = Inl TooShort"
    using too_short [of "replicate 319 0" "[]" BigEndian Xor] by (simp add: sizes)
  moreover have
    "zip_decode BigEndian (put_u32 BigEndian ZIP_ARCH_VER_1_0 @ replicate 7 0) = Inl TooShort"
    using too_short [of "put_u32 BigEndian ZIP_ARCH_VER_1_0 @ replicate 7 0" "[]" BigEndian Xor]
    by (simp add: sizes)
  moreover have
    "trailer_decode [] BigEndian (put_u32 BigEndian ARCH_TAG_BT2_TRAILER @ [0, 0, 0]) =
       Inl TooShort"
    using too_short [of "put_u32 BigEndian ARCH_TAG_BT2_TRAILER @ [0, 0, 0]" "[]" BigEndian Xor]
    by (simp add: sizes)
  ultimately show ?thesis
    by (simp only: simp_thms)
qed

section \<open>Unsupported zip modes\<close>





end
